theory Spec2Isabelle
  imports Complex_Main "HOL-Library.Sublist"
begin

section \<open>Python builtins used by the services\<close>

text \<open>
  The services of \<^verbatim>\<open>app/services.py\<close> lean on a handful of Python builtins:
  \<^verbatim>\<open>str\<close> on integers, \<^verbatim>\<open>int\<close> and \<^verbatim>\<open>float\<close> on cell values, and
  \<^verbatim>\<open>str.replace\<close>. They are modelled here on byte strings. Python's unbounded
  integers are \<open>int\<close>.
\<close>

datatype py_error = KeyError | ValueError | OverflowError

definition digit_char :: "nat \<Rightarrow> char" where
  "digit_char d = ''0123456789'' ! (d mod 10)"

text \<open>\<^verbatim>\<open>str(n)\<close> for a natural number: its decimal digits, most significant first.\<close>

function str_nat :: "nat \<Rightarrow> string" where
  "str_nat n = (if n < 10 then [digit_char n] else str_nat (n div 10) @ [digit_char n])"
  by pat_completeness auto
termination
  by (relation "measure (\<lambda>n. n)") auto

declare str_nat.simps [simp del]

text \<open>\<^verbatim>\<open>str(i)\<close> for a Python integer.\<close>

definition str_int :: "int \<Rightarrow> string" where
  "str_int i = (if i < 0 then CHR ''-'' # str_nat (nat (- i)) else str_nat (nat i))"

text \<open>
  A Python \<^verbatim>\<open>float\<close> is represented by the decimal value its text denotes
  (the interpreter rounds that value to the nearest double), or one of the
  three special values.
\<close>

datatype pyfloat = Finite rat | PosInf | NegInf | NaNf

subsection \<open>Text\<close>

text \<open>
  The characters that \<^verbatim>\<open>int\<close> and \<^verbatim>\<open>float\<close> strip from both ends of their
  argument: space, tab, line feed, vertical tab, form feed, carriage return and
  the four separators 0x1C to 0x1F.
\<close>

definition is_space :: "char \<Rightarrow> bool" where
  "is_space c = (c \<in> set [CHR '' '', CHR 0x09, CHR 0x0A, CHR 0x0B, CHR 0x0C, CHR 0x0D,
                           CHR 0x1C, CHR 0x1D, CHR 0x1E, CHR 0x1F])"

definition strip :: "string \<Rightarrow> string" where
  "strip s = rev (dropWhile is_space (rev (dropWhile is_space s)))"

definition is_digit :: "char \<Rightarrow> bool" where
  "is_digit c = (c \<in> set ''0123456789'')"

definition digit_val :: "char \<Rightarrow> nat" where
  "digit_val c = length (takeWhile (\<lambda>d. d \<noteq> c) ''0123456789'')"

definition nat_of_digits :: "string \<Rightarrow> nat" where
  "nat_of_digits ds = foldl (\<lambda>n c. 10 * n + digit_val c) 0 ds"

text \<open>
  A numeric literal's run of digits: one digit at least, and single underscores
  allowed between digits only.
\<close>

fun digit_group :: "string \<Rightarrow> bool" where
  "digit_group [] = False"
| "digit_group [c] = is_digit c"
| "digit_group (c # d # cs) =
     (is_digit c \<and> (if d = CHR ''_'' then digit_group cs else digit_group (d # cs)))"

definition group_val :: "string \<Rightarrow> nat" where
  "group_val g = nat_of_digits (filter (\<lambda>c. c \<noteq> CHR ''_'') g)"

definition lower_char :: "char \<Rightarrow> char" where
  "lower_char c =
     (case map_of (zip ''ABCDEFGHIJKLMNOPQRSTUVWXYZ'' ''abcdefghijklmnopqrstuvwxyz'') c of
        Some l \<Rightarrow> l
      | None \<Rightarrow> c)"

text \<open>An optional leading sign: whether it is a minus, and the rest of the text.\<close>

definition split_sign :: "string \<Rightarrow> bool \<times> string" where
  "split_sign s =
     (case s of
        [] \<Rightarrow> (False, [])
      | c # r \<Rightarrow> if c = CHR ''-'' then (True, r) else if c = CHR ''+'' then (False, r) else (False, s))"

text \<open>
  \<^verbatim>\<open>s.replace(old, new)\<close> for a pattern \<open>old\<close> of one character: every
  occurrence gives way to the text \<open>new\<close>.
\<close>

definition replace :: "char \<Rightarrow> string \<Rightarrow> string \<Rightarrow> string" where
  "replace old new s = concat (map (\<lambda>c. if c = old then new else [c]) s)"

subsection \<open>\<^verbatim>\<open>int\<close> and \<^verbatim>\<open>float\<close> on text\<close>

text \<open>
  \<^verbatim>\<open>int(s)\<close> in base ten: surrounding whitespace is stripped, a sign is
  optional, the rest is a run of digits. Anything else raises ValueError.
\<close>

definition int_of_str :: "string \<Rightarrow> py_error + int" where
  "int_of_str s =
     (let (neg, u) = split_sign (strip s)
      in if digit_group u
         then Inr (if neg then - int (group_val u) else int (group_val u))
         else Inl ValueError)"

text \<open>
  The finite literals \<^verbatim>\<open>float\<close> accepts, after the sign: an integer part and a
  fraction around an optional dot (one of the two may be empty), then an optional
  exponent. The result is the value of the literal, \<open>None\<close> when the text is not one.
\<close>

definition is_exp_mark :: "char \<Rightarrow> bool" where
  "is_exp_mark c = (c = CHR ''e'' \<or> c = CHR ''E'')"

definition parse_exponent :: "string \<Rightarrow> int option" where
  "parse_exponent x =
     (case x of
        [] \<Rightarrow> Some 0
      | _ # t \<Rightarrow>
          (let (neg, g) = split_sign t
           in if digit_group g
              then Some (if neg then - int (group_val g) else int (group_val g))
              else None))"

definition parse_decimal :: "string \<Rightarrow> rat option" where
  "parse_decimal u =
     (let mant = takeWhile (\<lambda>c. \<not> is_exp_mark c) u;
          expo = dropWhile (\<lambda>c. \<not> is_exp_mark c) u;
          ip = takeWhile (\<lambda>c. c \<noteq> CHR ''.'') mant;
          fp = drop 1 (dropWhile (\<lambda>c. c \<noteq> CHR ''.'') mant)
      in if (ip = [] \<or> digit_group ip) \<and> (fp = [] \<or> digit_group fp) \<and> (ip \<noteq> [] \<or> fp \<noteq> [])
         then (case parse_exponent expo of
                 None \<Rightarrow> None
               | Some x \<Rightarrow>
                   (let fd = filter (\<lambda>c. c \<noteq> CHR ''_'') fp;
                        m = of_nat (nat_of_digits (filter (\<lambda>c. c \<noteq> CHR ''_'') ip @ fd))
                            / 10 ^ length fd
                    in Some (if 0 \<le> x then m * 10 ^ nat x else m / 10 ^ nat (- x))))
         else None)"

text \<open>
  \<^verbatim>\<open>float(s)\<close>: whitespace stripped, an optional sign, then
  \<^verbatim>\<open>inf\<close>, \<^verbatim>\<open>infinity\<close> or \<^verbatim>\<open>nan\<close> in any letter case, or a finite
  literal. Anything else raises ValueError; a literal too large for a double
  is no error in Python (it rounds to infinity), and is \<open>Finite\<close> here.
\<close>

definition float_of_str :: "string \<Rightarrow> py_error + pyfloat" where
  "float_of_str s =
     (let (neg, u) = split_sign (strip s);
          l = map lower_char u
      in if l = ''inf'' \<or> l = ''infinity'' then Inr (if neg then NegInf else PosInf)
         else if l = ''nan'' then Inr NaNf
         else (case parse_decimal u of
                 None \<Rightarrow> Inl ValueError
               | Some q \<Rightarrow> Inr (Finite (if neg then - q else q))))"

section \<open>The data model of \<^verbatim>\<open>app/models.py\<close>\<close>

record ColaboradorDB =
  codigo :: int
  nome :: string
  cpf :: string
  genero :: string

record ColaboradorSheet =
  matricula :: string
  cargo_contabil :: "string option"
  salario :: "pyfloat option"
  admissao :: "string option"

record ColaboradorCompleto =
  codigo :: int
  nome :: string
  cpf :: string
  genero :: string
  cargo_contabil :: "string option"
  salario :: "pyfloat option"
  admissao :: "string option"

section \<open>The table read from the spreadsheet\<close>

text \<open>
  \<^verbatim>\<open>pd.read_csv\<close> hands the service a DataFrame. A cell of it is a missing
  value (NaN), an integer, a float or a text. A finite float cell is given by
  its sign, a decimal mantissa and a power of ten: the shortest digits that
  identify the double, which are what \<^verbatim>\<open>str\<close> prints. Only the three
  columns the service reads after its renaming are kept in a row; \<open>columns\<close>
  lists the labels the frame has.
\<close>

datatype cell = NaN | IntCell int | FloatCell bool nat int | InfCell bool | StrCell string

record Row =
  matricula :: cell
  cargo_contabil :: cell
  salario :: cell

record DataFrame =
  columns :: "string list"
  rows :: "Row list"

text \<open>\<^verbatim>\<open>pd.notna\<close>.\<close>

definition notna :: "cell \<Rightarrow> bool" where
  "notna c = (case c of NaN \<Rightarrow> False | _ \<Rightarrow> True)"

text \<open>
  The exponent of a float printed in scientific notation: a sign and two digits
  at least.
\<close>

definition exp_text :: "int \<Rightarrow> string" where
  "exp_text x =
     (let t = str_nat (nat \<bar>x\<bar>)
      in (if x < 0 then CHR ''-'' else CHR ''+'') # (if length t < 2 then CHR ''0'' # t else t))"

text \<open>
  \<^verbatim>\<open>str\<close> of a finite float \<open>m * 10 ^ e\<close>: the digits of \<open>m\<close> without
  trailing zeros, the decimal point \<open>decpt\<close> digits from their left end; in
  scientific notation when \<open>decpt\<close> is above 16 or below -3, in positional
  notation otherwise, always with a fraction.
\<close>

definition float_repr :: "bool \<Rightarrow> nat \<Rightarrow> int \<Rightarrow> string" where
  "float_repr neg m e =
     (let ds0 = str_nat m;
          tz = (if m = 0 then 0 else length (takeWhile (\<lambda>c. c = CHR ''0'') (rev ds0)));
          ds = take (length ds0 - tz) ds0;
          n = int (length ds);
          decpt = (if m = 0 then 1 else n + int tz + e);
          body =
            (if decpt \<le> - 4 \<or> 16 < decpt then
               (case ds of
                  [] \<Rightarrow> []
                | d # r \<Rightarrow> d # (if r = [] then [] else CHR ''.'' # r) @ CHR ''e'' # exp_text (decpt - 1))
             else if decpt \<le> 0 then ''0.'' @ replicate (nat (- decpt)) (CHR ''0'') @ ds
             else if n \<le> decpt then ds @ replicate (nat (decpt - n)) (CHR ''0'') @ ''.0''
             else take (nat decpt) ds @ ''.'' @ drop (nat decpt) ds)
      in if neg then CHR ''-'' # body else body)"

text \<open>\<^verbatim>\<open>str\<close> of a cell value.\<close>

definition py_str :: "cell \<Rightarrow> string" where
  "py_str c =
     (case c of
        NaN \<Rightarrow> ''nan''
      | IntCell i \<Rightarrow> str_int i
      | FloatCell neg m e \<Rightarrow> float_repr neg m e
      | InfCell neg \<Rightarrow> (if neg then ''-inf'' else ''inf'')
      | StrCell s \<Rightarrow> s)"

text \<open>
  \<^verbatim>\<open>int\<close> of a cell value. A float is truncated towards zero; NaN raises
  ValueError and an infinity OverflowError; a text is parsed.
\<close>

definition py_int :: "cell \<Rightarrow> py_error + int" where
  "py_int c =
     (case c of
        NaN \<Rightarrow> Inl ValueError
      | IntCell i \<Rightarrow> Inr i
      | FloatCell neg m e \<Rightarrow>
          (let a = (if 0 \<le> e then int m * 10 ^ nat e else int m div 10 ^ nat (- e))
           in Inr (if neg then - a else a))
      | InfCell neg \<Rightarrow> Inl OverflowError
      | StrCell s \<Rightarrow> int_of_str s)"

text \<open>\<^verbatim>\<open>row[name]\<close>: KeyError when the frame has no column of that label.\<close>

definition getitem :: "string list \<Rightarrow> string \<Rightarrow> (Row \<Rightarrow> cell) \<Rightarrow> Row \<Rightarrow> py_error + cell" where
  "getitem cols name sel row = (if name \<in> set cols then Inr (sel row) else Inl KeyError)"

section \<open>\<^verbatim>\<open>get_colaboradores_from_google_sheets_csv\<close>\<close>

text \<open>
  Line 95, \<^verbatim>\<open>df.dropna(subset=['matricula'])\<close>: the rows whose
  \<^verbatim>\<open>matricula\<close> is missing are removed; KeyError when the column is.
\<close>

definition dropna_matricula :: "DataFrame \<Rightarrow> py_error + DataFrame" where
  "dropna_matricula df =
     (if ''matricula'' \<in> set (columns df)
      then Inr (df\<lparr>rows := filter (\<lambda>r. notna (Row.matricula r)) (rows df)\<rparr>)
      else Inl KeyError)"

text \<open>
  \<^verbatim>\<open>Series.fillna(method='ffill')\<close>: a missing value takes the last value
  seen above it, and stays missing when there is none. \<open>prev\<close> is that value.
\<close>

fun ffill :: "cell \<Rightarrow> cell list \<Rightarrow> cell list" where
  "ffill prev [] = []"
| "ffill prev (c # cs) = (if notna c then c # ffill c cs else prev # ffill prev cs)"

text \<open>One turn of the loop of lines 105 to 107, for the column \<open>name\<close>.\<close>

definition ffill_column ::
  "string \<Rightarrow> (Row \<Rightarrow> cell) \<Rightarrow> (cell \<Rightarrow> Row \<Rightarrow> Row) \<Rightarrow> DataFrame \<Rightarrow> DataFrame" where
  "ffill_column name sel put df =
     (if name \<in> set (columns df)
      then df\<lparr>rows := map2 put (ffill NaN (map sel (rows df))) (rows df)\<rparr>
      else df)"

definition ffill_merged :: "DataFrame \<Rightarrow> DataFrame" where
  "ffill_merged df =
     ffill_column ''salario'' Row.salario (\<lambda>v r. r\<lparr>Row.salario := v\<rparr>)
       (ffill_column ''cargo_contabil'' Row.cargo_contabil (\<lambda>v r. r\<lparr>Row.cargo_contabil := v\<rparr>)
         (ffill_column ''matricula'' Row.matricula (\<lambda>v r. r\<lparr>Row.matricula := v\<rparr>) df))"

text \<open>Line 115: the text handed to \<^verbatim>\<open>float\<close>.\<close>

definition salario_text :: "cell \<Rightarrow> string" where
  "salario_text c = replace (CHR '','') ''.'' (replace (CHR ''.'') [] (py_str c))"

text \<open>
  The body of the \<^verbatim>\<open>try\<close> of lines 112 to 123, for one row: the error it
  raises, or the record it appends, \<open>None\<close> when it appends nothing.
\<close>

definition convert_row :: "string list \<Rightarrow> Row \<Rightarrow> py_error + ColaboradorSheet option" where
  "convert_row cols row =
     (case getitem cols ''matricula'' Row.matricula row of
        Inl e \<Rightarrow> Inl e
      | Inr mc \<Rightarrow>
     (case (if notna mc
            then (case py_int mc of Inl e \<Rightarrow> Inl e | Inr i \<Rightarrow> Inr (Some (str_int i)))
            else Inr None) of
        Inl e \<Rightarrow> Inl e
      | Inr matricula_val \<Rightarrow>
     (case getitem cols ''salario'' Row.salario row of
        Inl e \<Rightarrow> Inl e
      | Inr sc \<Rightarrow>
     (case (if notna sc
            then (case float_of_str (salario_text sc) of Inl e \<Rightarrow> Inl e | Inr f \<Rightarrow> Inr (Some f))
            else Inr None) of
        Inl e \<Rightarrow> Inl e
      | Inr salario_val \<Rightarrow>
     (case matricula_val of
        None \<Rightarrow> Inr None
      | Some mv \<Rightarrow>
          if mv = [] then Inr None
          else (case getitem cols ''cargo_contabil'' Row.cargo_contabil row of
                  Inl e \<Rightarrow> Inl e
                | Inr cc \<Rightarrow>
                    Inr (Some \<lparr> ColaboradorSheet.matricula = mv,
                                cargo_contabil = (if notna cc then Some (py_str cc) else None),
                                salario = salario_val,
                                admissao = None \<rparr>)))))))"

text \<open>
  The loop of lines 111 to 129. KeyError and ValueError are caught and the loop
  goes on to the next row; any other error leaves the loop.
\<close>

fun rows_loop ::
  "string list \<Rightarrow> ColaboradorSheet list \<Rightarrow> Row list \<Rightarrow> py_error + ColaboradorSheet list" where
  "rows_loop cols colaboradores_sheet [] = Inr colaboradores_sheet"
| "rows_loop cols colaboradores_sheet (row # rest) =
     (case convert_row cols row of
        Inr (Some c) \<Rightarrow> rows_loop cols (colaboradores_sheet @ [c]) rest
      | Inr None \<Rightarrow> rows_loop cols colaboradores_sheet rest
      | Inl KeyError \<Rightarrow> rows_loop cols colaboradores_sheet rest
      | Inl ValueError \<Rightarrow> rows_loop cols colaboradores_sheet rest
      | Inl e \<Rightarrow> Inl e)"

text \<open>
  Lines 95 to 107 on the frame that was read: the rows without a
  \<^verbatim>\<open>matricula\<close> are dropped first, the merged cells are filled after.
\<close>

definition clean_frame :: "DataFrame \<Rightarrow> py_error + DataFrame" where
  "clean_frame df =
     (case dropna_matricula df of
        Inl e \<Rightarrow> Inl e
      | Inr df1 \<Rightarrow> Inr (ffill_merged df1))"

text \<open>Lines 95 to 131: the cleaned frame is converted row by row.\<close>

definition clean_and_convert :: "DataFrame \<Rightarrow> py_error + ColaboradorSheet list" where
  "clean_and_convert df =
     (case clean_frame df of
        Inl e \<Rightarrow> Inl e
      | Inr df2 \<Rightarrow> rows_loop (columns df2) [] (rows df2))"

text \<open>
  What lines 71 to 90 come to: the request fails, the text holds no table, the
  reading fails in some other way, or a frame is read and its columns renamed.
\<close>

datatype sheet_fetch = RequestException | EmptyDataError | OtherException | Table DataFrame

text \<open>
  The function. Each of the three outer handlers returns the empty list, also
  for an error that left the loop over the rows.
\<close>

definition get_colaboradores_from_google_sheets_csv :: "sheet_fetch \<Rightarrow> ColaboradorSheet list" where
  "get_colaboradores_from_google_sheets_csv fetched =
     (case fetched of
        RequestException \<Rightarrow> []
      | EmptyDataError \<Rightarrow> []
      | OtherException \<Rightarrow> []
      | Table df \<Rightarrow> (case clean_and_convert df of Inl e \<Rightarrow> [] | Inr out \<Rightarrow> out))"

section \<open>The reconciler: \<^verbatim>\<open>combine_colaboradores_data\<close>\<close>

text \<open>
  Line 147 builds a dict by a comprehension over \<^verbatim>\<open>sheet_data\<close>: each
  element is stored under its \<^verbatim>\<open>matricula\<close>, a later one overwriting an
  earlier one with the same key.
\<close>

definition sheet_data_map :: "ColaboradorSheet list \<Rightarrow> (string \<rightharpoonup> ColaboradorSheet)" where
  "sheet_data_map sheet_data =
     foldl (\<lambda>m col. m(ColaboradorSheet.matricula col \<mapsto> col)) Map.empty sheet_data"

text \<open>
  The body of the loop of lines 150 to 174. A pydantic model instance is always
  truthy, so \<^verbatim>\<open>if sheet_colaborador\<close> tests for \<^verbatim>\<open>None\<close> only.
\<close>

definition combine_one ::
  "(string \<rightharpoonup> ColaboradorSheet) \<Rightarrow> ColaboradorDB \<Rightarrow> ColaboradorCompleto" where
  "combine_one m db_colaborador =
     (case m (str_int (ColaboradorDB.codigo db_colaborador)) of
        Some sheet_colaborador \<Rightarrow>
          \<lparr> ColaboradorCompleto.codigo = ColaboradorDB.codigo db_colaborador,
            nome = ColaboradorDB.nome db_colaborador,
            cpf = ColaboradorDB.cpf db_colaborador,
            genero = ColaboradorDB.genero db_colaborador,
            cargo_contabil = ColaboradorSheet.cargo_contabil sheet_colaborador,
            salario = ColaboradorSheet.salario sheet_colaborador,
            admissao = ColaboradorSheet.admissao sheet_colaborador \<rparr>
      | None \<Rightarrow>
          \<lparr> ColaboradorCompleto.codigo = ColaboradorDB.codigo db_colaborador,
            nome = ColaboradorDB.nome db_colaborador,
            cpf = ColaboradorDB.cpf db_colaborador,
            genero = ColaboradorDB.genero db_colaborador,
            cargo_contabil = None,
            salario = None,
            admissao = None \<rparr>)"

fun combine_loop ::
  "(string \<rightharpoonup> ColaboradorSheet) \<Rightarrow> ColaboradorCompleto list \<Rightarrow> ColaboradorDB list
     \<Rightarrow> ColaboradorCompleto list" where
  "combine_loop m combined_data [] = combined_data"
| "combine_loop m combined_data (db_colaborador # rest) =
     combine_loop m (combined_data @ [combine_one m db_colaborador]) rest"

definition combine_colaboradores_data ::
  "ColaboradorDB list \<Rightarrow> ColaboradorSheet list \<Rightarrow> ColaboradorCompleto list" where
  "combine_colaboradores_data db_data sheet_data =
     combine_loop (sheet_data_map sheet_data) [] db_data"

text \<open>The four authoritative fields of a combined record.\<close>

definition db_part :: "ColaboradorCompleto \<Rightarrow> ColaboradorDB" where
  "db_part c =
     \<lparr> ColaboradorDB.codigo = ColaboradorCompleto.codigo c,
       nome = ColaboradorCompleto.nome c,
       cpf = ColaboradorCompleto.cpf c,
       genero = ColaboradorCompleto.genero c \<rparr>"

section \<open>\<^verbatim>\<open>get_colaboradores_from_db\<close>\<close>

text \<open>
  What the database gives: no connection, a failed query, or the rows of the
  query, each a tuple of the four selected columns.
\<close>

datatype db_fetch = ConnectionFailed | QueryFailed | Fetched "(int \<times> string \<times> string \<times> string) list"

definition get_colaboradores_from_db :: "db_fetch \<Rightarrow> ColaboradorDB list" where
  "get_colaboradores_from_db db =
     (case db of
        ConnectionFailed \<Rightarrow> []
      | QueryFailed \<Rightarrow> []
      | Fetched fetched_rows \<Rightarrow>
          map (\<lambda>(c, n, p, g). \<lparr> ColaboradorDB.codigo = c, nome = n, cpf = p, genero = g \<rparr>)
            fetched_rows)"

section \<open>The operations of \<^verbatim>\<open>app/routes.py\<close>\<close>

text \<open>
  An operation returns its records or raises an HTTPException, which carries a
  status code and a detail. The details are the messages of the source, named
  here; the two messages built in the \<^verbatim>\<open>except\<close> clauses include the
  exception they caught.
\<close>

datatype HTTPException = HTTPException (status_code: nat) (detail: detail)
  and detail =
    NoSheetUrl
  | NoDbData
  | NoDbDataCheckConnection
  | NoSheetData
  | UnexpectedDb HTTPException
  | UnexpectedSheet HTTPException

text \<open>
  \<^verbatim>\<open>read_colaboradores_from_db\<close>: the exception raised inside the
  \<^verbatim>\<open>try\<close> for an empty list is itself caught by
  \<^verbatim>\<open>except Exception\<close> and raised again, wrapped.
\<close>

definition read_colaboradores_from_db :: "db_fetch \<Rightarrow> HTTPException + ColaboradorDB list" where
  "read_colaboradores_from_db db =
     (case (let colaboradores = get_colaboradores_from_db db
            in if colaboradores = [] then Inl (HTTPException 500 NoDbDataCheckConnection)
               else Inr colaboradores) of
        Inl e \<Rightarrow> Inl (HTTPException 500 (UnexpectedDb e))
      | Inr colaboradores \<Rightarrow> Inr colaboradores)"

definition read_colaboradores_from_sheets ::
  "string \<Rightarrow> sheet_fetch \<Rightarrow> HTTPException + ColaboradorSheet list" where
  "read_colaboradores_from_sheets sheet_url fetched =
     (if sheet_url = [] then Inl (HTTPException 400 NoSheetUrl)
      else (case (let colaboradores = get_colaboradores_from_google_sheets_csv fetched
                  in if colaboradores = [] then Inl (HTTPException 500 NoSheetData)
                     else Inr colaboradores) of
              Inl e \<Rightarrow> Inl (HTTPException 500 (UnexpectedSheet e))
            | Inr colaboradores \<Rightarrow> Inr colaboradores))"


section \<open>Example data\<close>

text \<open>The records of the join example of the specification.\<close>

definition ana :: ColaboradorDB where
  "ana = \<lparr> ColaboradorDB.codigo = 42, nome = ''Ana'', cpf = ''111'', genero = ''F'' \<rparr>"

definition caixa_42 :: ColaboradorSheet where
  "caixa_42 = \<lparr> ColaboradorSheet.matricula = ''42'', cargo_contabil = Some ''Caixa'',
                salario = Some (Finite 1500), admissao = None \<rparr>"

text \<open>A second external record under the same identifier.\<close>

definition gerente_42 :: ColaboradorSheet where
  "gerente_42 = \<lparr> ColaboradorSheet.matricula = ''42'', cargo_contabil = Some ''Gerente'',
                  salario = Some (Finite 3000), admissao = None \<rparr>"

text \<open>
  A frame with the three columns, and rows as \<^verbatim>\<open>read_csv\<close> gives them: the
  identifiers are floats as soon as one cell of the column is blank, and a
  salary written with a comma is a text.
\<close>

definition cols3 :: "string list" where
  "cols3 = [''matricula'', ''cargo_contabil'', ''salario'']"

definition row_caixa :: Row where
  "row_caixa = \<lparr> Row.matricula = FloatCell False 42 0, cargo_contabil = StrCell ''Caixa'',
                 salario = StrCell ''1.500,00'' \<rparr>"

text \<open>The three rows of the forward-fill example of the specification.\<close>

definition row_a :: Row where
  "row_a = \<lparr> Row.matricula = FloatCell False 1 0, cargo_contabil = StrCell ''roleA'',
             salario = FloatCell False 100 0 \<rparr>"

definition row_blank :: Row where
  "row_blank = \<lparr> Row.matricula = NaN, cargo_contabil = NaN, salario = NaN \<rparr>"

definition row_b :: Row where
  "row_b = \<lparr> Row.matricula = FloatCell False 2 0, cargo_contabil = StrCell ''roleB'',
             salario = FloatCell False 200 0 \<rparr>"

text \<open>A row whose identifier is the float infinity and whose salary is no number.\<close>

definition row_inf :: Row where
  "row_inf = \<lparr> Row.matricula = InfCell False, cargo_contabil = StrCell ''Gerente'',
               salario = StrCell ''abc'' \<rparr>"


text \<open>A row with an identifier whose salary is no number.\<close>

definition row_bad_salary :: Row where
  "row_bad_salary = \<lparr> Row.matricula = FloatCell False 7 0, cargo_contabil = StrCell ''Caixa'',
                      salario = StrCell ''abc'' \<rparr>"

section \<open>Properties of the reconciler\<close>

lemma combine_loop_map:
  "combine_loop m acc db_data = acc @ map (combine_one m) db_data"
  by (induction db_data arbitrary: acc) simp_all

lemma combine_as_map:
  "combine_colaboradores_data db_data sheet_data =
     map (combine_one (sheet_data_map sheet_data)) db_data"
  by (simp add: combine_colaboradores_data_def combine_loop_map)

lemma db_part_combine_one: "db_part (combine_one m d) = d"
  by (simp add: db_part_def combine_one_def split: option.splits)

lemma foldl_upd_last:
  "foldl (\<lambda>m col. m(ColaboradorSheet.matricula col \<mapsto> col)) m0 xs k =
     (if filter (\<lambda>c. ColaboradorSheet.matricula c = k) xs = [] then m0 k
      else Some (last (filter (\<lambda>c. ColaboradorSheet.matricula c = k) xs)))"
proof (induction xs rule: rev_induct)
  case Nil
  show ?case by simp
next
  case (snoc x xs)
  show ?case
    using snoc.IH by simp
qed

lemma sheet_data_map_last:
  "sheet_data_map sheet_data k =
     (if filter (\<lambda>c. ColaboradorSheet.matricula c = k) sheet_data = [] then None
      else Some (last (filter (\<lambda>c. ColaboradorSheet.matricula c = k) sheet_data)))"
  by (simp add: sheet_data_map_def foldl_upd_last)

text \<open>
  C2. The combined output has one record per authoritative record, in the order
  of the authoritative input: its length is that of \<open>db_data\<close>, and the four
  authoritative fields of its records, read in order, are \<open>db_data\<close> itself,
  whatever the external set holds. So no authoritative record is dropped and no
  record comes from the external set alone.
\<close>

theorem combine_cardinality_order:
  "length (combine_colaboradores_data db_data sheet_data) = length db_data \<and>
   map db_part (combine_colaboradores_data db_data sheet_data) = db_data"
  by (simp add: combine_as_map db_part_combine_one comp_def)

lemma combine_nth:
  "i < length db_data \<Longrightarrow>
   combine_colaboradores_data db_data sheet_data ! i =
     combine_one (sheet_data_map sheet_data) (db_data ! i)"
  by (simp add: combine_as_map)

lemma combine_one_match:
  "m (str_int (ColaboradorDB.codigo d)) = Some e \<Longrightarrow>
   ColaboradorCompleto.cargo_contabil (combine_one m d) = ColaboradorSheet.cargo_contabil e \<and>
   ColaboradorCompleto.salario (combine_one m d) = ColaboradorSheet.salario e \<and>
   ColaboradorCompleto.admissao (combine_one m d) = ColaboradorSheet.admissao e"
  by (simp add: combine_one_def)

lemma combine_one_no_match:
  "m (str_int (ColaboradorDB.codigo d)) = None \<Longrightarrow>
   ColaboradorCompleto.cargo_contabil (combine_one m d) = None \<and>
   ColaboradorCompleto.salario (combine_one m d) = None \<and>
   ColaboradorCompleto.admissao (combine_one m d) = None"
  by (simp add: combine_one_def)

lemma str_int_42: "str_int 42 = ''42''"
  by code_simp

text \<open>
  C3. For the authoritative record at any position \<open>i\<close>, the combined record at
  \<open>i\<close> has its four authoritative fields unchanged. If the external set holds a
  record whose \<^verbatim>\<open>matricula\<close> is the stringified \<^verbatim>\<open>codigo\<close>, the combined
  record carries the role, salary and hire date of such a record; if it holds
  none, the three fields are absent.
\<close>

theorem join_correctness:
  assumes "i < length db_data"
  shows "db_part (combine_colaboradores_data db_data sheet_data ! i) = db_data ! i \<and>
    ((\<exists>e \<in> set sheet_data. ColaboradorSheet.matricula e = str_int (ColaboradorDB.codigo (db_data ! i))) \<longrightarrow>
       (\<exists>e \<in> set sheet_data.
          ColaboradorSheet.matricula e = str_int (ColaboradorDB.codigo (db_data ! i)) \<and>
          ColaboradorCompleto.cargo_contabil (combine_colaboradores_data db_data sheet_data ! i)
            = ColaboradorSheet.cargo_contabil e \<and>
          ColaboradorCompleto.salario (combine_colaboradores_data db_data sheet_data ! i)
            = ColaboradorSheet.salario e \<and>
          ColaboradorCompleto.admissao (combine_colaboradores_data db_data sheet_data ! i)
            = ColaboradorSheet.admissao e)) \<and>
    ((\<forall>e \<in> set sheet_data. ColaboradorSheet.matricula e \<noteq> str_int (ColaboradorDB.codigo (db_data ! i))) \<longrightarrow>
       ColaboradorCompleto.cargo_contabil (combine_colaboradores_data db_data sheet_data ! i) = None \<and>
       ColaboradorCompleto.salario (combine_colaboradores_data db_data sheet_data ! i) = None \<and>
       ColaboradorCompleto.admissao (combine_colaboradores_data db_data sheet_data ! i) = None)"
proof -
  let ?k = "str_int (ColaboradorDB.codigo (db_data ! i))"
  let ?es = "filter (\<lambda>c. ColaboradorSheet.matricula c = ?k) sheet_data"
  let ?c = "combine_colaboradores_data db_data sheet_data ! i"
  have c: "?c = combine_one (sheet_data_map sheet_data) (db_data ! i)"
    using assms by (rule combine_nth)
  have p1: "db_part ?c = db_data ! i"
    by (simp add: c db_part_combine_one)
  have p2: "\<exists>e \<in> set sheet_data. ColaboradorSheet.matricula e = ?k \<and>
          ColaboradorCompleto.cargo_contabil ?c = ColaboradorSheet.cargo_contabil e \<and>
          ColaboradorCompleto.salario ?c = ColaboradorSheet.salario e \<and>
          ColaboradorCompleto.admissao ?c = ColaboradorSheet.admissao e"
    if "\<exists>e \<in> set sheet_data. ColaboradorSheet.matricula e = ?k"
  proof -
    from that have ne: "?es \<noteq> []"
      by (auto simp: filter_empty_conv)
    then have "last ?es \<in> set ?es"
      by (rule last_in_set)
    then have mem: "last ?es \<in> set sheet_data" and key: "ColaboradorSheet.matricula (last ?es) = ?k"
      by auto
    have "sheet_data_map sheet_data ?k = Some (last ?es)"
      using ne by (simp add: sheet_data_map_last)
    then show ?thesis
      using mem key combine_one_match [of "sheet_data_map sheet_data" "db_data ! i" "last ?es"]
      by (auto simp: c)
  qed
  have p3: "ColaboradorCompleto.cargo_contabil ?c = None \<and>
       ColaboradorCompleto.salario ?c = None \<and> ColaboradorCompleto.admissao ?c = None"
    if "\<forall>e \<in> set sheet_data. ColaboradorSheet.matricula e \<noteq> ?k"
  proof -
    from that have "?es = []"
      by (auto simp: filter_empty_conv)
    then have "sheet_data_map sheet_data ?k = None"
      by (simp add: sheet_data_map_last)
    then show ?thesis
      using combine_one_no_match [of "sheet_data_map sheet_data" "db_data ! i"] by (simp add: c)
  qed
  from p1 p2 p3 show ?thesis by blast
qed

text \<open>
  The example of the specification: Ana, joined with the external record 42,
  and joined with an external set that has no record 42.
\<close>

theorem join_correctness_witness:
  "combine_colaboradores_data [ana] [caixa_42] ! 0 =
     \<lparr> ColaboradorCompleto.codigo = 42, nome = ''Ana'', cpf = ''111'', genero = ''F'',
       cargo_contabil = Some ''Caixa'', salario = Some (Finite 1500), admissao = None \<rparr> \<and>
   combine_colaboradores_data [ana] [caixa_42\<lparr>ColaboradorSheet.matricula := ''43''\<rparr>] ! 0 =
     \<lparr> ColaboradorCompleto.codigo = 42, nome = ''Ana'', cpf = ''111'', genero = ''F'',
       cargo_contabil = None, salario = None, admissao = None \<rparr>"
  using join_correctness [of 0 "[ana]" "[caixa_42]"]
    join_correctness [of 0 "[ana]" "[caixa_42\<lparr>ColaboradorSheet.matricula := ''43''\<rparr>]"]
  by (simp add: ana_def caixa_42_def str_int_42 db_part_def ColaboradorCompleto.equality)

text \<open>
  C9. The lookup mapping built from the external set holds, under an identifier
  \<open>k\<close> that occurs in the set, the last record of the set with that identifier;
  building it neither fails nor drops the key. Every combined record whose
  stringified \<^verbatim>\<open>codigo\<close> is \<open>k\<close> carries the role, salary and hire date of
  that last record.
\<close>

theorem duplicate_ids_last_wins:
  assumes "es = filter (\<lambda>c. ColaboradorSheet.matricula c = k) sheet_data"
    and "es \<noteq> []"
  shows "sheet_data_map sheet_data k = Some (last es) \<and>
    (\<forall>i < length db_data. str_int (ColaboradorDB.codigo (db_data ! i)) = k \<longrightarrow>
       ColaboradorCompleto.cargo_contabil (combine_colaboradores_data db_data sheet_data ! i)
         = ColaboradorSheet.cargo_contabil (last es) \<and>
       ColaboradorCompleto.salario (combine_colaboradores_data db_data sheet_data ! i)
         = ColaboradorSheet.salario (last es) \<and>
       ColaboradorCompleto.admissao (combine_colaboradores_data db_data sheet_data ! i)
         = ColaboradorSheet.admissao (last es))"
proof -
  have m: "sheet_data_map sheet_data k = Some (last es)"
    using assms by (simp add: sheet_data_map_last)
  show ?thesis
  proof (intro conjI allI impI)
    show "sheet_data_map sheet_data k = Some (last es)" by (rule m)
  next
    fix i
    assume i: "i < length db_data" and k: "str_int (ColaboradorDB.codigo (db_data ! i)) = k"
    have c: "combine_colaboradores_data db_data sheet_data ! i =
        combine_one (sheet_data_map sheet_data) (db_data ! i)"
      using i by (rule combine_nth)
    have "sheet_data_map sheet_data (str_int (ColaboradorDB.codigo (db_data ! i))) = Some (last es)"
      using m k by simp
    with combine_one_match [of "sheet_data_map sheet_data" "db_data ! i" "last es"]
    show "ColaboradorCompleto.cargo_contabil (combine_colaboradores_data db_data sheet_data ! i)
         = ColaboradorSheet.cargo_contabil (last es)"
      and "ColaboradorCompleto.salario (combine_colaboradores_data db_data sheet_data ! i)
         = ColaboradorSheet.salario (last es)"
      and "ColaboradorCompleto.admissao (combine_colaboradores_data db_data sheet_data ! i)
         = ColaboradorSheet.admissao (last es)"
      by (simp_all add: c)
  qed
qed

text \<open>Two external records 42: the mapping and the combined record hold the second.\<close>

theorem duplicate_ids_last_wins_witness:
  "sheet_data_map [caixa_42, gerente_42] ''42'' = Some gerente_42 \<and>
   ColaboradorCompleto.cargo_contabil (combine_colaboradores_data [ana] [caixa_42, gerente_42] ! 0)
     = Some ''Gerente'' \<and>
   ColaboradorCompleto.salario (combine_colaboradores_data [ana] [caixa_42, gerente_42] ! 0)
     = Some (Finite 3000)"
  using duplicate_ids_last_wins [of "[caixa_42, gerente_42]" "''42''" "[caixa_42, gerente_42]" "[ana]"]
  by (simp add: ana_def caixa_42_def gerente_42_def str_int_42)

section \<open>Evaluating the model\<close>

lemma replicate_numeral: "replicate (numeral k) x = x # replicate (pred_numeral k) x"
  by (simp add: numeral_eq_Suc)

lemmas text_defs =
  strip_def is_space_def split_sign_def lower_char_def is_digit_def nat_of_digits_def
  digit_val_def group_val_def replace_def is_exp_mark_def parse_exponent_def parse_decimal_def
  float_of_str_def int_of_str_def

lemmas cell_defs =
  notna_def py_str_def py_int_def float_repr_def exp_text_def str_int_def str_nat.simps
  digit_char_def getitem_def salario_text_def replicate_numeral

lemmas sheet_defs =
  get_colaboradores_from_google_sheets_csv_def clean_and_convert_def clean_frame_def
  dropna_matricula_def
  ffill_merged_def ffill_column_def convert_row_def Let_def

lemma sheets_row_caixa:
  "get_colaboradores_from_google_sheets_csv (Table \<lparr>columns = cols3, rows = [row_caixa]\<rparr>)
     = [caixa_42]"
  by (simp add: sheet_defs cell_defs text_defs cols3_def row_caixa_def caixa_42_def)

lemma sheets_fetch_failed:
  "get_colaboradores_from_google_sheets_csv RequestException = []"
  "get_colaboradores_from_google_sheets_csv EmptyDataError = []"
  "get_colaboradores_from_google_sheets_csv OtherException = []"
  by (simp_all add: get_colaboradores_from_google_sheets_csv_def)

lemma sheets_no_rows:
  "get_colaboradores_from_google_sheets_csv (Table \<lparr>columns = cs, rows = []\<rparr>) = []"
  by (simp add: get_colaboradores_from_google_sheets_csv_def clean_and_convert_def
      clean_frame_def dropna_matricula_def ffill_merged_def ffill_column_def)

lemma db_fetch_failed:
  "get_colaboradores_from_db ConnectionFailed = []"
  "get_colaboradores_from_db QueryFailed = []"
  "get_colaboradores_from_db (Fetched []) = []"
  by (simp_all add: get_colaboradores_from_db_def)

lemma db_fetched_ana:
  "get_colaboradores_from_db (Fetched [(42, ''Ana'', ''111'', ''F'')]) = [ana]"
  by (simp add: get_colaboradores_from_db_def ana_def)

section \<open>Properties of the operations\<close>

text \<open>
  C4, as the code has it. The two services return the empty list when their
  source cannot be fetched or gives no row; they raise nothing. The per-source
  operations built on them do not: each raises an HTTPException of status 500
  whenever its service returns the empty list, and returns the list of the
  service otherwise (the external one raises status 400 for an empty address).
\<close>

theorem per_source_empty:
  "get_colaboradores_from_db ConnectionFailed = [] \<and>
   get_colaboradores_from_db QueryFailed = [] \<and>
   get_colaboradores_from_db (Fetched []) = [] \<and>
   get_colaboradores_from_google_sheets_csv RequestException = [] \<and>
   get_colaboradores_from_google_sheets_csv EmptyDataError = [] \<and>
   get_colaboradores_from_google_sheets_csv OtherException = [] \<and>
   get_colaboradores_from_google_sheets_csv (Table \<lparr>columns = cs, rows = []\<rparr>) = [] \<and>
   (get_colaboradores_from_db db = [] \<longrightarrow>
      read_colaboradores_from_db db =
        Inl (HTTPException 500 (UnexpectedDb (HTTPException 500 NoDbDataCheckConnection)))) \<and>
   (get_colaboradores_from_db db \<noteq> [] \<longrightarrow>
      read_colaboradores_from_db db = Inr (get_colaboradores_from_db db)) \<and>
   (sheet_url \<noteq> [] \<and> get_colaboradores_from_google_sheets_csv fetched = [] \<longrightarrow>
      read_colaboradores_from_sheets sheet_url fetched =
        Inl (HTTPException 500 (UnexpectedSheet (HTTPException 500 NoSheetData)))) \<and>
   (sheet_url \<noteq> [] \<and> get_colaboradores_from_google_sheets_csv fetched \<noteq> [] \<longrightarrow>
      read_colaboradores_from_sheets sheet_url fetched =
        Inr (get_colaboradores_from_google_sheets_csv fetched)) \<and>
   read_colaboradores_from_sheets [] fetched = Inl (HTTPException 400 NoSheetUrl)"
  by (simp add: read_colaboradores_from_db_def read_colaboradores_from_sheets_def
      sheets_no_rows sheets_fetch_failed db_fetch_failed)

theorem per_source_empty_witness:
  "get_colaboradores_from_db QueryFailed = [] \<and>
   read_colaboradores_from_db QueryFailed =
     Inl (HTTPException 500 (UnexpectedDb (HTTPException 500 NoDbDataCheckConnection))) \<and>
   get_colaboradores_from_db (Fetched [(42, ''Ana'', ''111'', ''F'')]) = [ana] \<and>
   read_colaboradores_from_db (Fetched [(42, ''Ana'', ''111'', ''F'')]) = Inr [ana] \<and>
   get_colaboradores_from_google_sheets_csv RequestException = [] \<and>
   read_colaboradores_from_sheets ''u'' RequestException =
     Inl (HTTPException 500 (UnexpectedSheet (HTTPException 500 NoSheetData))) \<and>
   read_colaboradores_from_sheets ''u'' (Table \<lparr>columns = cols3, rows = [row_caixa]\<rparr>) =
     Inr [caixa_42]"
  using per_source_empty [of "[]" QueryFailed "''u''" RequestException]
    per_source_empty [of "[]" "Fetched [(42, ''Ana'', ''111'', ''F'')]" "''u''"
      "Table \<lparr>columns = cols3, rows = [row_caixa]\<rparr>"]
  by (simp add: db_fetch_failed db_fetched_ana sheets_fetch_failed sheets_row_caixa)

text \<open>
  The claim C4 as it is written fails: with a database that answers the query
  with no row, and with a table that has no row, the per-source operations
  raise an HTTPException of status 500; they do not return the empty list.
\<close>

theorem per_source_empty_counterexample:
  "read_colaboradores_from_db (Fetched []) =
     Inl (HTTPException 500 (UnexpectedDb (HTTPException 500 NoDbDataCheckConnection))) \<and>
   read_colaboradores_from_db (Fetched []) \<noteq> Inr [] \<and>
   read_colaboradores_from_sheets ''u'' (Table \<lparr>columns = cols3, rows = []\<rparr>) =
     Inl (HTTPException 500 (UnexpectedSheet (HTTPException 500 NoSheetData))) \<and>
   read_colaboradores_from_sheets ''u'' (Table \<lparr>columns = cols3, rows = []\<rparr>) \<noteq> Inr []"
  by (simp add: read_colaboradores_from_db_def read_colaboradores_from_sheets_def
      sheets_no_rows db_fetch_failed)



section \<open>Properties of the spreadsheet service\<close>

lemma length_ffill: "length (ffill p cs) = length cs"
  by (induction cs arbitrary: p) simp_all

lemma ffill_all_notna: "\<forall>c \<in> set cs. notna c \<Longrightarrow> ffill p cs = cs"
  by (induction cs arbitrary: p) simp_all

lemma ffill_nth:
  "i < length cs \<Longrightarrow>
   ffill p cs ! i =
     (if filter notna (take (Suc i) cs) = [] then p else last (filter notna (take (Suc i) cs)))"
proof (induction cs arbitrary: p i)
  case Nil
  then show ?case by simp
next
  case (Cons c cs)
  show ?case
  proof (cases i)
    case 0
    then show ?thesis by simp
  next
    case (Suc j)
    with Cons.prems have j: "j < length cs" by simp
    show ?thesis
      using Cons.IH [OF j] Suc by simp
  qed
qed

lemma map2_put_other:
  "length vs = length rs \<Longrightarrow> (\<And>v r. f (put v r) = f r) \<Longrightarrow> map f (map2 put vs rs) = map f rs"
  by (induction vs rs rule: list_induct2) simp_all

lemma map2_put_same:
  "length vs = length rs \<Longrightarrow> (\<And>v r. f (put v r) = v) \<Longrightarrow> map f (map2 put vs rs) = vs"
  by (induction vs rs rule: list_induct2) simp_all

lemma map2_put_id:
  "length vs = length rs \<Longrightarrow> (\<And>r. put (f r) r = r) \<Longrightarrow> vs = map f rs \<Longrightarrow> map2 put vs rs = rs"
  by (induction vs rs rule: list_induct2) simp_all

text \<open>
  The frame after lines 95 to 107, when it has the three columns: the rows
  with a \<^verbatim>\<open>matricula\<close>, in their order, their \<^verbatim>\<open>cargo_contabil\<close> and
  \<^verbatim>\<open>salario\<close> columns filled.
\<close>

lemma clean_frame_columns:
  assumes "''matricula'' \<in> set (columns df)" and "''cargo_contabil'' \<in> set (columns df)"
    and "''salario'' \<in> set (columns df)"
  shows "\<exists>df'. clean_frame df = Inr df' \<and> columns df' = columns df \<and>
     map Row.matricula (rows df') = map Row.matricula (filter (\<lambda>r. notna (Row.matricula r)) (rows df)) \<and>
     map Row.cargo_contabil (rows df') =
       ffill NaN (map Row.cargo_contabil (filter (\<lambda>r. notna (Row.matricula r)) (rows df))) \<and>
     map Row.salario (rows df') =
       ffill NaN (map Row.salario (filter (\<lambda>r. notna (Row.matricula r)) (rows df)))"
proof -
  let ?rs0 = "filter (\<lambda>r. notna (Row.matricula r)) (rows df)"
  let ?rs1 = "map2 (\<lambda>v r. r\<lparr>Row.matricula := v\<rparr>) (ffill NaN (map Row.matricula ?rs0)) ?rs0"
  let ?rs2 = "map2 (\<lambda>v r. r\<lparr>Row.cargo_contabil := v\<rparr>) (ffill NaN (map Row.cargo_contabil ?rs1)) ?rs1"
  let ?rs3 = "map2 (\<lambda>v r. r\<lparr>Row.salario := v\<rparr>) (ffill NaN (map Row.salario ?rs2)) ?rs2"
  have "ffill NaN (map Row.matricula ?rs0) = map Row.matricula ?rs0"
    by (rule ffill_all_notna) simp
  then have rs1: "?rs1 = ?rs0"
    by (intro map2_put_id [where f = Row.matricula]) (simp_all add: length_ffill)
  have l2: "length ?rs2 = length ?rs0"
    by (simp add: rs1 length_ffill)
  have m2: "map Row.matricula ?rs2 = map Row.matricula ?rs0"
    unfolding rs1 by (rule map2_put_other) (simp_all add: length_ffill)
  have c2: "map Row.cargo_contabil ?rs2 = ffill NaN (map Row.cargo_contabil ?rs0)"
    unfolding rs1 by (rule map2_put_same) (simp_all add: length_ffill)
  have s2: "map Row.salario ?rs2 = map Row.salario ?rs0"
    unfolding rs1 by (rule map2_put_other) (simp_all add: length_ffill)
  have m3: "map Row.matricula ?rs3 = map Row.matricula ?rs2"
    by (rule map2_put_other) (simp_all add: length_ffill)
  have c3: "map Row.cargo_contabil ?rs3 = map Row.cargo_contabil ?rs2"
    by (rule map2_put_other) (simp_all add: length_ffill)
  have s3: "map Row.salario ?rs3 = ffill NaN (map Row.salario ?rs2)"
    by (rule map2_put_same) (simp_all add: length_ffill)
  have "clean_frame df = Inr (df\<lparr>rows := ?rs3\<rparr>)"
    using assms by (simp add: clean_frame_def dropna_matricula_def ffill_merged_def ffill_column_def)
  moreover have "map Row.matricula ?rs3 = map Row.matricula ?rs0"
    using m3 m2 by simp
  moreover have "map Row.cargo_contabil ?rs3 = ffill NaN (map Row.cargo_contabil ?rs0)"
    using c3 c2 by simp
  moreover have "map Row.salario ?rs3 = ffill NaN (map Row.salario ?rs0)"
    using s3 s2 by simp
  ultimately show ?thesis
    by simp
qed

text \<open>
  C1, as the code has it. On a frame with the three columns, the rows whose
  \<^verbatim>\<open>matricula\<close> is blank are dropped first (line 95); the forward fill of
  lines 105 to 107 then runs on the rows that are left, in their order, and
  the conversion of lines 111 to 129 runs on its result. In the row at
  position \<open>i\<close> of the repaired frame the \<^verbatim>\<open>matricula\<close> is that of the
  \<open>i\<close>-th kept row, unchanged, and the \<^verbatim>\<open>cargo_contabil\<close> and the
  \<^verbatim>\<open>salario\<close> are the last non-blank value of their column among the kept
  rows up to \<open>i\<close>, blank when there is none.
\<close>

theorem merged_cell_repair:
  assumes "''matricula'' \<in> set (columns df)" and "''cargo_contabil'' \<in> set (columns df)"
    and "''salario'' \<in> set (columns df)"
    and "kept = filter (\<lambda>r. notna (Row.matricula r)) (rows df)"
  shows "\<exists>df'. clean_frame df = Inr df' \<and>
     clean_and_convert df = rows_loop (columns df) [] (rows df') \<and>
     length (rows df') = length kept \<and>
     (\<forall>i < length kept.
        Row.matricula (rows df' ! i) = Row.matricula (kept ! i) \<and>
        Row.cargo_contabil (rows df' ! i) =
          (if filter notna (map Row.cargo_contabil (take (Suc i) kept)) = [] then NaN
           else last (filter notna (map Row.cargo_contabil (take (Suc i) kept)))) \<and>
        Row.salario (rows df' ! i) =
          (if filter notna (map Row.salario (take (Suc i) kept)) = [] then NaN
           else last (filter notna (map Row.salario (take (Suc i) kept)))))"
proof -
  from clean_frame_columns [OF assms(1-3)] obtain df' where
    cf: "clean_frame df = Inr df'" and cols: "columns df' = columns df" and
    m: "map Row.matricula (rows df') = map Row.matricula kept" and
    c: "map Row.cargo_contabil (rows df') = ffill NaN (map Row.cargo_contabil kept)" and
    s: "map Row.salario (rows df') = ffill NaN (map Row.salario kept)"
    unfolding assms(4) by blast
  have len: "length (rows df') = length kept"
    using m by (rule map_eq_imp_length_eq)
  have conv: "clean_and_convert df = rows_loop (columns df) [] (rows df')"
    by (simp add: clean_and_convert_def cf cols)
  have nth: "Row.matricula (rows df' ! i) = Row.matricula (kept ! i) \<and>
        Row.cargo_contabil (rows df' ! i) =
          (if filter notna (map Row.cargo_contabil (take (Suc i) kept)) = [] then NaN
           else last (filter notna (map Row.cargo_contabil (take (Suc i) kept)))) \<and>
        Row.salario (rows df' ! i) =
          (if filter notna (map Row.salario (take (Suc i) kept)) = [] then NaN
           else last (filter notna (map Row.salario (take (Suc i) kept))))"
    if i: "i < length kept" for i
  proof -
    have "Row.matricula (rows df' ! i) = map Row.matricula (rows df') ! i"
      using i len by simp
    then have a: "Row.matricula (rows df' ! i) = Row.matricula (kept ! i)"
      using i by (simp add: m)
    have "Row.cargo_contabil (rows df' ! i) = map Row.cargo_contabil (rows df') ! i"
      using i len by simp
    then have b: "Row.cargo_contabil (rows df' ! i) = ffill NaN (map Row.cargo_contabil kept) ! i"
      by (simp add: c)
    have "Row.salario (rows df' ! i) = map Row.salario (rows df') ! i"
      using i len by simp
    then have d: "Row.salario (rows df' ! i) = ffill NaN (map Row.salario kept) ! i"
      by (simp add: s)
    show ?thesis
      using i a b d by (simp add: ffill_nth take_map del: take_Suc_conv_app_nth)
  qed
  from cf conv len nth show ?thesis
    by blast
qed

text \<open>
  A row with an identifier and no role nor salary takes both from the row
  above; a row with no identifier is removed.
\<close>

theorem merged_cell_repair_witness:
  "clean_frame \<lparr>columns = cols3,
      rows = [row_a, row_blank\<lparr>Row.matricula := FloatCell False 2 0\<rparr>, row_blank, row_b]\<rparr> =
     Inr \<lparr>columns = cols3,
      rows = [row_a, row_a\<lparr>Row.matricula := FloatCell False 2 0\<rparr>, row_b]\<rparr>"
  using merged_cell_repair [of "\<lparr>columns = cols3,
      rows = [row_a, row_blank\<lparr>Row.matricula := FloatCell False 2 0\<rparr>, row_blank, row_b]\<rparr>"
      "[row_a, row_blank\<lparr>Row.matricula := FloatCell False 2 0\<rparr>, row_b]"]
  by (simp add: clean_frame_def dropna_matricula_def ffill_merged_def ffill_column_def notna_def
      cols3_def row_a_def row_b_def row_blank_def)

text \<open>
  The claim C1 as it is written fails on its own example: the second of the
  three rows has no identifier, so line 95 drops it before any cell is filled.
  The repaired frame has two rows, and its second row is the third row of the
  input, not a copy of the first; two records come out, for the identifiers 1
  and 2.
\<close>

theorem merged_cell_repair_counterexample:
  "clean_frame \<lparr>columns = cols3, rows = [row_a, row_blank, row_b]\<rparr> =
     Inr \<lparr>columns = cols3, rows = [row_a, row_b]\<rparr> \<and>
   [row_a, row_b] ! 1 \<noteq> row_a \<and>
   map ColaboradorSheet.matricula
     (get_colaboradores_from_google_sheets_csv
        (Table \<lparr>columns = cols3, rows = [row_a, row_blank, row_b]\<rparr>)) = [''1'', ''2'']"
  by (simp add: sheet_defs cell_defs text_defs cols3_def row_a_def row_b_def row_blank_def)









lemma py_int_errors: "py_int c = Inl e \<Longrightarrow> e = ValueError \<or> e = OverflowError"
  by (auto simp: py_int_def int_of_str_def Let_def split: cell.splits prod.splits if_splits)

text \<open>
  What holds of a row whose salary text is no number: when the conversion of its
  identifier does not raise OverflowError, the row raises ValueError, which the
  loop catches, going on with the rows below as if the row were not there.
\<close>

lemma unparseable_salary_row_skipped:
  assumes "''matricula'' \<in> set cols" and "''salario'' \<in> set cols"
    and "notna (Row.salario row)"
    and "float_of_str (salario_text (Row.salario row)) = Inl ValueError"
    and "py_int (Row.matricula row) \<noteq> Inl OverflowError"
  shows "convert_row cols row = Inl ValueError"
    and "rows_loop cols acc (row # rest) = rows_loop cols acc rest"
proof -
  show c: "convert_row cols row = Inl ValueError"
  proof (cases "py_int (Row.matricula row)")
    case (Inl e)
    with assms(5) py_int_errors [of "Row.matricula row" e] have "e = ValueError" by auto
    with Inl assms(1-4) show ?thesis
      by (simp add: convert_row_def getitem_def)
  next
    case (Inr n)
    with assms(1-4) show ?thesis
      by (simp add: convert_row_def getitem_def)
  qed
  show "rows_loop cols acc (row # rest) = rows_loop cols acc rest"
    by (simp add: c)
qed

lemma sheets_row_bad_salary:
  "get_colaboradores_from_google_sheets_csv
     (Table \<lparr>columns = cols3, rows = [row_caixa, row_bad_salary]\<rparr>) = [caixa_42]"
  by (simp add: sheet_defs cell_defs text_defs cols3_def row_caixa_def row_bad_salary_def
      caixa_42_def)

text \<open>
  C7, on a frame the code can be given. The second row has the salary text
  \<^verbatim>\<open>abc\<close> and the float infinity as its identifier (what \<^verbatim>\<open>read_csv\<close>
  makes of the cell \<^verbatim>\<open>inf\<close>). Line 114 converts the identifier first:
  \<^verbatim>\<open>int\<close> raises OverflowError, which neither \<^verbatim>\<open>except\<close> clause of the
  loop catches, so the handler of line 138 returns the empty list. The record
  of the first row, which the frame without the second row gives, is lost.
\<close>

theorem bad_row_aborts_batch:
  "convert_row cols3 row_inf = Inl OverflowError \<and>
   rows_loop cols3 [] [row_caixa, row_inf] = Inl OverflowError \<and>
   get_colaboradores_from_google_sheets_csv
     (Table \<lparr>columns = cols3, rows = [row_caixa, row_inf]\<rparr>) = [] \<and>
   get_colaboradores_from_google_sheets_csv
     (Table \<lparr>columns = cols3, rows = [row_caixa]\<rparr>) = [caixa_42]"
  by (simp add: sheet_defs cell_defs text_defs cols3_def row_caixa_def row_inf_def caixa_42_def)

section \<open>Properties of the salary coercion\<close>

















end
